theory Spec2Isabelle
  imports Main "HOL-Library.Word" "HOL-Library.Sublist"
begin

section \<open>Time, durations and errors\<close>

text \<open>
  A \<open>time.Time\<close> is an instant in nanoseconds on an unbounded axis, a
  \<open>time.Duration\<close> is a signed 64-bit count of nanoseconds.  \<open>Time.Sub\<close> (and so
  \<open>time.Since\<close>) saturates at the largest and smallest duration.
\<close>

definition maxDuration :: int where
  "maxDuration = 2 ^ 63 - 1"

definition minDuration :: int where
  "minDuration = - (2 ^ 63)"

definition time_since :: "int \<Rightarrow> int \<Rightarrow> int" where
  "time_since now t = max minDuration (min maxDuration (now - t))"

text \<open>The zero \<open>time.Time\<close> (January 1, year 1, UTC) in nanoseconds before the Unix epoch.\<close>

definition zero_time :: int where
  "zero_time = - 62135596800000000000"

text \<open>
  Error values.  \<open>Canceled\<close> and \<open>DeadlineExceeded\<close> are the two errors of package
  \<open>context\<close>; \<open>ErrorString\<close> is \<open>errors.New\<close>; \<open>ErrTimedOut d e\<close> is
  \<open>fmt.Errorf("operation timed out after %v: %w", d, e)\<close> of the retry package;
  \<open>ErrThrottled s i\<close> is the error of \<open>ForceRefetch\<close> built from the time since the
  last refetch and the configured interval.
\<close>

datatype error =
    Canceled
  | DeadlineExceeded
  | ErrorString string
  | ErrTimedOut int error
  | ErrThrottled int int

text \<open>
  \<open>err.Error()\<close>.  The text of a duration (\<open>Duration.String\<close> of the standard library)
  is the parameter \<open>durString\<close>.
\<close>

fun error_text :: "(int \<Rightarrow> string) \<Rightarrow> error \<Rightarrow> string" where
  "error_text durString Canceled = ''context canceled''"
| "error_text durString DeadlineExceeded = ''context deadline exceeded''"
| "error_text durString (ErrorString s) = s"
| "error_text durString (ErrTimedOut d e) =
     ''operation timed out after '' @ durString d @ '': '' @ error_text durString e"
| "error_text durString (ErrThrottled s i) =
     ''failed to force refetch time since ('' @ durString s @
     ''), force refetch interval ('' @ durString i @ '')''"

text \<open>\<open>errors.Unwrap\<close>: only \<open>%w\<close> wraps.\<close>

fun unwrap :: "error \<Rightarrow> error option" where
  "unwrap (ErrTimedOut d e) = Some e"
| "unwrap _ = None"

section \<open>Circuit breaker\<close>

datatype State = StateClosed | StateHalfOpen | StateOpen

text \<open>
  The struct \<open>circuitBreaker\<close>.  The two callbacks are supplied by the caller; the model
  records every call of \<open>onStateChange\<close> and of \<open>onError\<close> in the order they happen.
\<close>

record circuitBreaker =
  failureThreshold :: int
  resetTimeout :: int
  currentState :: State
  failureCount :: int
  lastFailureTime :: int
  successCount :: int
  stateChanges :: "(State \<times> State) list"
  errorsSeen :: "error list"

record Options =
  FailureThreshold :: int
  ResetTimeout :: int

definition New :: "Options \<Rightarrow> circuitBreaker" where
  "New options =
     \<lparr> failureThreshold = (if FailureThreshold options \<le> 0 then 5 else FailureThreshold options),
       resetTimeout = (if ResetTimeout options \<le> 0 then 60 * 1000000000 else ResetTimeout options),
       currentState = StateClosed,
       failureCount = 0,
       lastFailureTime = zero_time,
       successCount = 0,
       stateChanges = [],
       errorsSeen = [] \<rparr>"

definition toState :: "State \<Rightarrow> circuitBreaker \<Rightarrow> circuitBreaker" where
  "toState newState cb =
     (if currentState cb = newState then cb
      else cb \<lparr> currentState := newState, failureCount := 0, successCount := 0,
                stateChanges := stateChanges cb @ [(currentState cb, newState)] \<rparr>)"

definition toHalfOpen :: "circuitBreaker \<Rightarrow> circuitBreaker" where
  "toHalfOpen cb = toState StateHalfOpen cb"

text \<open>\<open>allowRequest\<close> at instant \<open>now\<close>: the decision and the breaker afterwards.\<close>

definition allowRequest :: "int \<Rightarrow> circuitBreaker \<Rightarrow> bool \<times> circuitBreaker" where
  "allowRequest now cb =
     (case currentState cb of
        StateClosed \<Rightarrow> (True, cb)
      | StateHalfOpen \<Rightarrow> (True, cb)
      | StateOpen \<Rightarrow>
          (if time_since now (lastFailureTime cb) > resetTimeout cb
           then (True, toHalfOpen cb) else (False, cb)))"

definition onSuccess :: "circuitBreaker \<Rightarrow> circuitBreaker" where
  "onSuccess cb =
     (case currentState cb of
        StateHalfOpen \<Rightarrow>
          (let cb1 = cb \<lparr> successCount := successCount cb + 1 \<rparr>
           in if successCount cb1 \<ge> 2 then toState StateClosed cb1 else cb1)
      | StateClosed \<Rightarrow> cb \<lparr> failureCount := 0 \<rparr>
      | StateOpen \<Rightarrow> cb)"

text \<open>\<open>onFailure\<close>; \<open>now\<close> is the value of \<open>time.Now()\<close> read there.\<close>

definition onFailure :: "int \<Rightarrow> error \<Rightarrow> circuitBreaker \<Rightarrow> circuitBreaker" where
  "onFailure now e cb =
     (let cb1 = cb \<lparr> failureCount := failureCount cb + 1, lastFailureTime := now \<rparr>;
          cb2 = (if currentState cb1 = StateClosed \<and> failureCount cb1 \<ge> failureThreshold cb1
                 then toState StateOpen cb1
                 else if currentState cb1 = StateHalfOpen then toState StateOpen cb1
                 else cb1)
      in cb2 \<lparr> errorsSeen := errorsSeen cb2 @ [e] \<rparr>)"

definition handleResult :: "int \<Rightarrow> error option \<Rightarrow> circuitBreaker \<Rightarrow> circuitBreaker" where
  "handleResult now err cb =
     (case err of Some e \<Rightarrow> onFailure now e cb | None \<Rightarrow> onSuccess cb)"

text \<open>
  One call of \<open>Execute\<close>.  The call is described by the instant \<open>callAt\<close> at which
  \<open>allowRequest\<close> reads the clock, the error \<open>outcome\<close> the operation returns if it is
  invoked, and the instant \<open>doneAt\<close> at which \<open>handleResult\<close> runs.  The result is the
  returned error, whether the operation was invoked, and the breaker afterwards.
\<close>

record call =
  callAt :: int
  outcome :: "error option"
  doneAt :: int

definition circuitOpenError :: error where
  "circuitOpenError = ErrorString ''circuit breaker is open''"

definition Execute :: "call \<Rightarrow> circuitBreaker \<Rightarrow> error option \<times> bool \<times> circuitBreaker" where
  "Execute c cb =
     (case allowRequest (callAt c) cb of
        (False, cb1) \<Rightarrow> (Some circuitOpenError, False, cb1)
      | (True, cb1) \<Rightarrow> (outcome c, True, handleResult (doneAt c) (outcome c) cb1))"

definition GetState :: "circuitBreaker \<Rightarrow> State" where
  "GetState cb = currentState cb"

text \<open>A sequence of \<open>Execute\<close> calls, one after the other, on the same breaker.\<close>

fun executeAll :: "call list \<Rightarrow> circuitBreaker \<Rightarrow> circuitBreaker" where
  "executeAll [] cb = cb"
| "executeAll (c # cs) cb = executeAll cs (snd (snd (Execute c cb)))"

text \<open>The number of transitions into \<open>StateOpen\<close> reported to \<open>onStateChange\<close>.\<close>

definition opened :: "circuitBreaker \<Rightarrow> nat" where
  "opened cb = length (filter (\<lambda>p. snd p = StateOpen) (stateChanges cb))"



section \<open>Contexts\<close>

text \<open>
  A \<open>context.Context\<close> is described by the instant at which its \<open>Done\<close> channel is
  closed, if ever, and by the error \<open>Err()\<close> returns from then on: \<open>Canceled\<close> after a
  cancellation, \<open>DeadlineExceeded\<close> after a deadline.
\<close>

record Context =
  expires :: "int option"
  cause :: error

definition Background :: Context where
  "Background = \<lparr> expires = None, cause = Canceled \<rparr>"

definition ctx_done :: "Context \<Rightarrow> int \<Rightarrow> bool" where
  "ctx_done ctx t = (case expires ctx of None \<Rightarrow> False | Some d \<Rightarrow> d \<le> t)"

definition ctx_Err :: "Context \<Rightarrow> int \<Rightarrow> error option" where
  "ctx_Err ctx t = (if ctx_done ctx t then Some (cause ctx) else None)"

text \<open>
  \<open>context.WithTimeout(parent, d)\<close> called at instant \<open>now\<close>: the child is done when the
  parent is, or at the deadline \<open>now + d\<close> if that comes first.
\<close>

definition WithTimeout :: "Context \<Rightarrow> int \<Rightarrow> int \<Rightarrow> Context" where
  "WithTimeout parent d now =
     (case expires parent of
        None \<Rightarrow> \<lparr> expires = Some (now + d), cause = DeadlineExceeded \<rparr>
      | Some p \<Rightarrow> if p \<le> now + d then parent
                  else \<lparr> expires = Some (now + d), cause = DeadlineExceeded \<rparr>)"

section \<open>Nonce tracker\<close>

record NonceResponse =
  Nonce :: "64 word"
  Accnum :: "64 word"

text \<open>The zero value \<open>NonceResponse{}\<close>.\<close>

definition zeroNonce :: NonceResponse where
  "zeroNonce = \<lparr> Nonce = 0, Accnum = 0 \<rparr>"

text \<open>
  The struct \<open>NonceTracker\<close>.  \<open>fetchNonce ctx t\<close> is the remote fetch started at instant
  \<open>t\<close>: it gives the pair the function returns and the time it takes to return.  The field
  \<open>fetches\<close> counts the invocations of \<open>fetchNonce\<close>; the channel \<open>cancelCh\<close> of the
  struct is never used by the code and is left out.
\<close>

record NonceTracker =
  nonceData :: NonceResponse
  fetchNonce :: "Context \<Rightarrow> int \<Rightarrow> (NonceResponse \<times> error option) \<times> nat"
  forceRefetchInterval :: int
  refetchTimeout :: int
  isFirstFetch :: bool
  lastRefetch :: int
  fetches :: nat

definition NewNonceTracker ::
  "(Context \<Rightarrow> int \<Rightarrow> (NonceResponse \<times> error option) \<times> nat) \<Rightarrow> int \<Rightarrow> int \<Rightarrow> NonceTracker" where
  "NewNonceTracker fetch interval timeout =
     \<lparr> nonceData = zeroNonce, fetchNonce = fetch, forceRefetchInterval = interval,
       refetchTimeout = timeout, isFirstFetch = True, lastRefetch = zero_time, fetches = 0 \<rparr>"

definition GetLastRefetchTime :: "NonceTracker \<Rightarrow> int" where
  "GetLastRefetchTime n = lastRefetch n"

definition IncrementAndGet :: "NonceTracker \<Rightarrow> NonceResponse \<times> NonceTracker" where
  "IncrementAndGet n =
     (let n1 = (if \<not> isFirstFetch n
                then n \<lparr> nonceData := (nonceData n) \<lparr> Nonce := Nonce (nonceData n) + 1 \<rparr> \<rparr>
                else n \<lparr> isFirstFetch := False \<rparr>)
      in (nonceData n1, n1))"

text \<open>
  \<open>refetchAndUpdateNonce\<close> called at instant \<open>now\<close>.  The fetch runs in its own goroutine
  and puts its result on the channel at \<open>now\<close> plus the time it takes; the \<open>select\<close> takes
  whichever of the context and the channel is ready first (\<open>doneFirst\<close> says that it is
  the context).  When both are ready at the same instant Go chooses one at random:
  \<open>pickDone\<close> tells whether the context case is chosen.  \<open>time.Now()\<close> in the channel
  case is the instant the result arrives.
\<close>

definition doneFirst :: "Context \<Rightarrow> int \<Rightarrow> int \<Rightarrow> bool \<Rightarrow> bool" where
  "doneFirst ctx now arrives pickDone =
     (case expires ctx of
        None \<Rightarrow> False
      | Some d \<Rightarrow> max d now < arrives \<or> (max d now = arrives \<and> pickDone))"

definition refetchAndUpdateNonce ::
  "Context \<Rightarrow> int \<Rightarrow> bool \<Rightarrow> NonceTracker \<Rightarrow> (NonceResponse \<times> error option) \<times> NonceTracker" where
  "refetchAndUpdateNonce ctx0 now pickDone n =
     (let ctx = WithTimeout ctx0 (refetchTimeout n) now;
          res = fst (fetchNonce n ctx now);
          arrives = now + int (snd (fetchNonce n ctx now));
          n1 = n \<lparr> fetches := fetches n + 1 \<rparr>
      in if doneFirst ctx now arrives pickDone then ((zeroNonce, Some (cause ctx)), n1)
         else (case snd res of
                 Some e \<Rightarrow> ((zeroNonce, Some e), n1)
               | None \<Rightarrow>
                   (let n2 = n1 \<lparr> nonceData := fst res, lastRefetch := arrives \<rparr>
                    in ((nonceData n2, None), n2))))"

definition ForceRefetch ::
  "Context \<Rightarrow> int \<Rightarrow> bool \<Rightarrow> NonceTracker \<Rightarrow> (NonceResponse \<times> error option) \<times> NonceTracker" where
  "ForceRefetch ctx now pickDone n =
     (let timeSince = time_since now (lastRefetch n)
      in if timeSince > forceRefetchInterval n then refetchAndUpdateNonce ctx now pickDone n
         else ((zeroNonce, Some (ErrThrottled timeSince (forceRefetchInterval n))), n))"

text \<open>\<open>k\<close> calls of \<open>IncrementAndGet\<close> one after the other: the records returned, in order.\<close>

fun incrementMany :: "nat \<Rightarrow> NonceTracker \<Rightarrow> NonceResponse list" where
  "incrementMany 0 n = []"
| "incrementMany (Suc k) n = fst (IncrementAndGet n) # incrementMany k (snd (IncrementAndGet n))"

text \<open>Two fetch functions for concrete runs: one answers at once, one fails at once.\<close>

definition fetchTen :: "Context \<Rightarrow> int \<Rightarrow> (NonceResponse \<times> error option) \<times> nat" where
  "fetchTen ctx t = ((\<lparr> Nonce = 10, Accnum = 1 \<rparr>, None), 0)"

definition fetchFails :: "Context \<Rightarrow> int \<Rightarrow> (NonceResponse \<times> error option) \<times> nat" where
  "fetchFails ctx t = ((\<lparr> Nonce = 7, Accnum = 7 \<rparr>, Some (ErrorString ''fetch error'')), 0)"


section \<open>Backoff retry\<close>

record RetryConfig =
  MaxDuration :: int
  InitialInterval :: int
  MaxInterval :: int
  IntervalIncrement :: int

text \<open>
  \<open>strings.Contains\<close> on byte strings.
\<close>

fun Contains :: "string \<Rightarrow> string \<Rightarrow> bool" where
  "Contains [] substr = (substr = [])"
| "Contains (c # s) substr = (prefix substr (c # s) \<or> Contains s substr)"

text \<open>
  \<open>strings.ToLower\<close> is a function of the standard library: it maps every Unicode letter
  to its lower case and replaces bytes that are not valid UTF-8.  It is the parameter
  \<open>toLower\<close> of \<open>isNonRetriable\<close> and of everything that calls it.  The loop of
  \<open>isNonRetriable\<close> over the patterns is \<open>matchesAny\<close>.
\<close>

fun matchesAny :: "(string \<Rightarrow> string) \<Rightarrow> string \<Rightarrow> string list \<Rightarrow> bool" where
  "matchesAny toLower errStr [] = False"
| "matchesAny toLower errStr (pattern # rest) =
     (if Contains errStr (toLower pattern) then True else matchesAny toLower errStr rest)"

definition isNonRetriable ::
  "(int \<Rightarrow> string) \<Rightarrow> (string \<Rightarrow> string) \<Rightarrow> error option \<Rightarrow> string list \<Rightarrow> bool" where
  "isNonRetriable durString toLower err nonRetriablePatterns =
     (case err of
        None \<Rightarrow> False
      | Some e \<Rightarrow>
          if length nonRetriablePatterns = 0 then False
          else matchesAny toLower (toLower (error_text durString e)) nonRetriablePatterns)"

text \<open>Addition of two \<open>time.Duration\<close> values wraps around at 64 bits.\<close>

definition wrap64 :: "int \<Rightarrow> int" where
  "wrap64 x = (x + 2 ^ 63) mod 2 ^ 64 - 2 ^ 63"

text \<open>
  The \<open>select\<close> of \<open>RetryWithBackoff\<close>, entered at instant \<open>now\<close> after a failed attempt.
  The context is ready from the instant it is done, the timer from \<open>timerAt\<close>, and
  \<open>time.After(interval)\<close> from \<open>now + interval\<close> (at once when the interval is not
  positive).  The \<open>select\<close> waits for the first instant at which a case is ready;
  \<open>selectReady\<close> gives the cases ready then, in the order of the source, and that instant.
\<close>

datatype selected = CtxDone | TimerFired | IntervalElapsed

definition selectAt :: "Context \<Rightarrow> int \<Rightarrow> int \<Rightarrow> int \<Rightarrow> int" where
  "selectAt ctx timerAt now interval =
     max now (case expires ctx of
                None \<Rightarrow> min timerAt (now + max 0 interval)
              | Some d \<Rightarrow> min d (min timerAt (now + max 0 interval)))"

definition selectReady :: "Context \<Rightarrow> int \<Rightarrow> int \<Rightarrow> int \<Rightarrow> selected list" where
  "selectReady ctx timerAt now interval =
     (let at = selectAt ctx timerAt now interval
      in (if ctx_done ctx at then [CtxDone] else []) @
         (if timerAt \<le> at then [TimerFired] else []) @
         (if now + max 0 interval \<le> at then [IntervalElapsed] else []))"

text \<open>
  When several cases are ready Go chooses one of them at random; \<open>choice\<close> is the number
  drawn for this \<open>select\<close>.
\<close>

definition selectCase :: "nat \<Rightarrow> Context \<Rightarrow> int \<Rightarrow> int \<Rightarrow> int \<Rightarrow> selected" where
  "selectCase choice ctx timerAt now interval =
     (let ready = selectReady ctx timerAt now interval
      in if ready = [] then IntervalElapsed else ready ! (choice mod length ready))"

text \<open>
  The operation is a function of the context it is given, the instant it is called and the
  state of the world: it returns an error or none, the time it took, and the new state of the
  world.
\<close>

type_synonym 'w operation = "Context \<Rightarrow> int \<Rightarrow> 'w \<Rightarrow> (error option \<times> nat) \<times> 'w"

text \<open>
  What a run of \<open>RetryWithBackoff\<close> gives: the error returned, the number of calls of the
  operation, the error of the last call, the \<open>return\<close> statement taken, the instant of the
  return and the state of the world.
\<close>

datatype exit = Succeeded | NonRetriable | Cancelled | TimedOut

record 'w retried =
  returned :: "error option"
  calls :: nat
  lastError :: "error option"
  leftBy :: exit
  finished :: int
  world :: 'w

text \<open>
  The \<open>for\<close> loop.  \<open>fuel\<close> bounds the number of attempts (the result is \<open>None\<close> when
  it is used up), \<open>choices\<close> gives the number drawn at each \<open>select\<close>, \<open>k\<close> counts the
  attempts made so far.
\<close>

fun retryLoop ::
  "nat \<Rightarrow> (int \<Rightarrow> string) \<Rightarrow> (string \<Rightarrow> string) \<Rightarrow> (nat \<Rightarrow> nat) \<Rightarrow> Context \<Rightarrow> RetryConfig \<Rightarrow> 'w operation \<Rightarrow>
   string list \<Rightarrow> int \<Rightarrow> int \<Rightarrow> nat \<Rightarrow> int \<Rightarrow> 'w \<Rightarrow> 'w retried option" where
  "retryLoop 0 durString toLower choices ctx cfg operation pats timerAt interval k now w = None"
| "retryLoop (Suc fuel) durString toLower choices ctx cfg operation pats timerAt interval k now w =
     (let err = fst (fst (operation ctx now w));
          back = now + int (snd (fst (operation ctx now w)));
          w1 = snd (operation ctx now w)
      in case err of
           None \<Rightarrow>
             Some \<lparr> returned = None, calls = k + 1, lastError = None, leftBy = Succeeded,
                    finished = back, world = w1 \<rparr>
         | Some e \<Rightarrow>
             if isNonRetriable durString toLower (Some e) pats
             then Some \<lparr> returned = Some e, calls = k + 1, lastError = Some e,
                         leftBy = NonRetriable, finished = back, world = w1 \<rparr>
             else (case selectCase (choices k) ctx timerAt back interval of
                     CtxDone \<Rightarrow>
                       Some \<lparr> returned = ctx_Err ctx (selectAt ctx timerAt back interval),
                              calls = k + 1, lastError = Some e, leftBy = Cancelled,
                              finished = selectAt ctx timerAt back interval, world = w1 \<rparr>
                   | TimerFired \<Rightarrow>
                       Some \<lparr> returned = Some (ErrTimedOut (MaxDuration cfg) e),
                              calls = k + 1, lastError = Some e, leftBy = TimedOut,
                              finished = selectAt ctx timerAt back interval, world = w1 \<rparr>
                   | IntervalElapsed \<Rightarrow>
                       retryLoop fuel durString toLower choices ctx cfg operation pats timerAt
                         (min (wrap64 (interval + IntervalIncrement cfg)) (MaxInterval cfg))
                         (k + 1) (selectAt ctx timerAt back interval) w1))"

text \<open>\<open>RetryWithBackoff\<close> called at instant \<open>now\<close>: the timer is set, then the loop runs.\<close>

definition RetryWithBackoff ::
  "nat \<Rightarrow> (int \<Rightarrow> string) \<Rightarrow> (string \<Rightarrow> string) \<Rightarrow> (nat \<Rightarrow> nat) \<Rightarrow> Context \<Rightarrow> RetryConfig \<Rightarrow> 'w operation \<Rightarrow>
   string list \<Rightarrow> int \<Rightarrow> 'w \<Rightarrow> 'w retried option" where
  "RetryWithBackoff fuel durString toLower choices ctx cfg operation pats now w =
     retryLoop fuel durString toLower choices ctx cfg operation pats (now + MaxDuration cfg)
       (InitialInterval cfg) 0 now w"

text \<open>
  Values for concrete runs: a text for durations (it plays no part in the runs below), the
  scheduler that always draws 0, an operation that fails after \<open>d\<close> nanoseconds with the
  error \<open>e\<close> and counts its calls, and one that succeeds after \<open>d\<close> nanoseconds.
\<close>

definition durationText :: "int \<Rightarrow> string" where
  "durationText d = ''(duration)''"

text \<open>
  On text made of ASCII characters \<open>strings.ToLower\<close> lowers the letters A to Z and
  leaves every other character as it is; \<open>lowerASCII\<close> does that, and stands for
  \<open>strings.ToLower\<close> in the concrete runs below, whose texts are ASCII.
\<close>

definition lowerASCIIChar :: "char \<Rightarrow> char" where
  "lowerASCIIChar c =
     (if 65 \<le> (of_char c :: nat) \<and> (of_char c :: nat) \<le> 90
      then char_of ((of_char c :: nat) + 32) else c)"

definition lowerASCII :: "string \<Rightarrow> string" where
  "lowerASCII s = map lowerASCIIChar s"

definition drawZero :: "nat \<Rightarrow> nat" where
  "drawZero k = 0"

definition failsAfter :: "nat \<Rightarrow> error \<Rightarrow> nat operation" where
  "failsAfter d e ctx t w = ((Some e, d), w + 1)"

definition succeedsAfter :: "nat \<Rightarrow> nat operation" where
  "succeedsAfter d ctx t w = ((None, d), w + 1)"


section \<open>Asynchronous request processor\<close>

record 't Request =
  ID :: string
  Data :: 't
  CreatedAt :: int

text \<open>The struct \<open>Response\<close>; its field \<open>Data\<close> is \<open>RespData\<close> here.\<close>

record 'r Response =
  RequestID :: string
  RespData :: 'r
  Error :: "error option"
  Duration :: int

text \<open>
  \<open>RequestProcessor.Process(ctx, req)\<close>, called at an instant in a state of the world: the
  pair it returns, the time it takes, and the new state of the world.
\<close>

type_synonym ('t, 'r, 'w) RequestProcessor =
  "Context \<Rightarrow> 't Request \<Rightarrow> int \<Rightarrow> 'w \<Rightarrow> (('r \<times> error option) \<times> nat) \<times> 'w"

datatype panic = NilPointerDereference

text \<open>
  The random choices of the Go scheduler.  \<open>retryDraw i\<close> gives the numbers drawn at the
  \<open>select\<close>s of the retry of the \<open>i\<close>-th request handled; \<open>dropDraw i\<close> says whether the
  \<open>select\<close> that sends the \<open>i\<close>-th response takes the \<open>ctx.Done()\<close> case when both cases
  are ready; \<open>exitDraw i\<close> says whether the \<open>select\<close> of \<open>processLoop\<close> takes the
  \<open>ctx.Done()\<close> case when the context is done and the \<open>i\<close>-th request is waiting.
\<close>

record scheduler =
  retryDraw :: "nat \<Rightarrow> nat \<Rightarrow> nat"
  dropDraw :: "nat \<Rightarrow> bool"
  exitDraw :: "nat \<Rightarrow> bool"

text \<open>
  The struct \<open>AsyncRequestProcessor\<close>.  The two channels are the lists of what they hold,
  oldest first, both of capacity \<open>bufferSize\<close>.  \<open>workerCtx\<close> is the field \<open>ctx\<close>: it is
  done from the instant \<open>Stop\<close> cancels it.  \<open>zeroR\<close> is the zero value of the response
  type.  \<open>handled\<close> lists the identifiers of the requests given to \<open>processRequest\<close>, in
  order; \<open>closed\<close> says that \<open>responseChan\<close> has been closed.  No consumer reads
  \<open>responseChan\<close> while the processor runs.
\<close>

record ('t, 'r, 'w) AsyncRequestProcessor =
  requestChan :: "'t Request list"
  responseChan :: "'r Response list"
  bufferSize :: nat
  processor :: "('t, 'r, 'w) RequestProcessor"
  workerCtx :: Context
  retryConfig :: "RetryConfig option"
  zeroR :: 'r
  handled :: "string list"
  closed :: bool

text \<open>
  \<open>NewAsyncRequstProcessor\<close>.  \<open>stopAt\<close> is the instant at which \<open>Stop\<close> will cancel the
  context, if it ever does.
\<close>

definition NewAsyncRequstProcessor ::
  "nat \<Rightarrow> ('t, 'r, 'w) RequestProcessor \<Rightarrow> RetryConfig option \<Rightarrow> 'r \<Rightarrow> int option \<Rightarrow>
   ('t, 'r, 'w) AsyncRequestProcessor" where
  "NewAsyncRequstProcessor cap p cfg zero stopAt =
     \<lparr> requestChan = [], responseChan = [], bufferSize = cap, processor = p,
       workerCtx = \<lparr> expires = stopAt, cause = Canceled \<rparr>, retryConfig = cfg, zeroR = zero,
       handled = [], closed = False \<rparr>"

text \<open>
  \<open>Submit\<close> at instant \<open>now\<close>.  With the context done and room in the channel both cases
  of the \<open>select\<close> are ready and \<open>pickDone\<close> says whether the first is taken.
\<close>

definition Submit ::
  "('t, 'r, 'w) AsyncRequestProcessor \<Rightarrow> 't Request \<Rightarrow> int \<Rightarrow> bool \<Rightarrow>
   bool \<times> ('t, 'r, 'w) AsyncRequestProcessor" where
  "Submit w req now pickDone =
     (let done = ctx_done (workerCtx w) now;
          room = length (requestChan w) < bufferSize w
      in if room \<and> \<not> (done \<and> pickDone)
         then (True, w \<lparr> requestChan := requestChan w @ [req] \<rparr>)
         else (False, w))"

text \<open>
  \<open>process\<close>: the timeout of the request context is read through the pointer
  \<open>w.retryConfig\<close> before the processor is called, so a nil pointer panics there.
  \<open>processWith cfg\<close> is the rest of the body, with \<open>cfg\<close> what the pointer points to.
\<close>

definition processWith ::
  "RetryConfig \<Rightarrow> ('t, 'r, 'w) AsyncRequestProcessor \<Rightarrow> 't Request \<Rightarrow> int \<Rightarrow> 'w \<Rightarrow>
   (('r \<times> error option) \<times> nat) \<times> 'w" where
  "processWith cfg w req now wd =
     processor w (WithTimeout (workerCtx w) (MaxDuration cfg) now) req now wd"

definition process ::
  "('t, 'r, 'w) AsyncRequestProcessor \<Rightarrow> 't Request \<Rightarrow> int \<Rightarrow> 'w \<Rightarrow>
   panic + ((('r \<times> error option) \<times> nat) \<times> 'w)" where
  "process w req now wd =
     (case retryConfig w of
        None \<Rightarrow> Inl NilPointerDereference
      | Some cfg \<Rightarrow> Inr (processWith cfg w req now wd))"

text \<open>
  The closure given to \<open>RetryWithBackoff\<close>, where the pointer is not nil: it calls
  \<open>process\<close> and keeps the data it returned in the variable \<open>responseData\<close>, the second
  component of the state.
\<close>

definition processAttempt ::
  "RetryConfig \<Rightarrow> ('t, 'r, 'w) AsyncRequestProcessor \<Rightarrow> 't Request \<Rightarrow> ('w \<times> 'r) operation" where
  "processAttempt cfg w req c now st =
     (let res = processWith cfg w req now (fst st)
      in ((snd (fst (fst res)), snd (fst res)), (snd res, fst (fst (fst res)))))"

text \<open>
  The \<open>select\<close> that sends a response at instant \<open>now\<close>: \<open>Some True\<close> when the response
  is put on the channel, \<open>Some False\<close> when it is dropped and \<open>None\<close> when the sender blocks
  for ever (channel full, context never done).  With the channel full the sender waits for the
  context, so the instant of a drop is not before the context is done.
\<close>

definition sendResponse ::
  "('t, 'r, 'w) AsyncRequestProcessor \<Rightarrow> int \<Rightarrow> bool \<Rightarrow> (bool \<times> int) option" where
  "sendResponse w now pickDone =
     (let done = ctx_done (workerCtx w) now;
          room = length (responseChan w) < bufferSize w
      in if room then Some (\<not> (done \<and> pickDone), now)
         else (case expires (workerCtx w) of
                 None \<Rightarrow> None
               | Some T \<Rightarrow> Some (False, max T now)))"

text \<open>
  \<open>processRequest\<close> started at instant \<open>now\<close>.  The result is \<open>None\<close> when the retry runs
  out of fuel or the sender blocks for ever, a panic, or the processor, the instant and the
  world afterwards.
\<close>

definition processRequest ::
  "nat \<Rightarrow> (int \<Rightarrow> string) \<Rightarrow> (string \<Rightarrow> string) \<Rightarrow> scheduler \<Rightarrow> ('t, 'r, 'w) AsyncRequestProcessor \<Rightarrow> 't Request \<Rightarrow>
   int \<Rightarrow> 'w \<Rightarrow> (panic + (('t, 'r, 'w) AsyncRequestProcessor \<times> int \<times> 'w)) option" where
  "processRequest fuel durString toLower sc w0 req now wd =
     (let i = length (handled w0);
          w = w0 \<lparr> handled := handled w0 @ [ID req] \<rparr>
      in case retryConfig w of
           None \<Rightarrow>
             (case process w req now wd of
                Inl p \<Rightarrow> Some (Inl p)
              | Inr (((d, err), took), wd1) \<Rightarrow>
                  (case sendResponse w (now + int took) (dropDraw sc i) of
                     None \<Rightarrow> None
                   | Some (sent, t) \<Rightarrow>
                       Some (Inr ((if sent
                                   then w \<lparr> responseChan := responseChan w @
                                          [\<lparr> RequestID = ID req, RespData = d, Error = err,
                                             Duration = time_since (now + int took) now \<rparr>] \<rparr>
                                   else w), t, wd1))))
         | Some cfg \<Rightarrow>
             (case RetryWithBackoff fuel durString toLower (retryDraw sc i) (workerCtx w) cfg
                     (processAttempt cfg w req) [] now (wd, zeroR w) of
                None \<Rightarrow> None
              | Some r \<Rightarrow>
                  (case sendResponse w (finished r) (dropDraw sc i) of
                     None \<Rightarrow> None
                   | Some (sent, t) \<Rightarrow>
                       Some (Inr ((if sent
                                   then w \<lparr> responseChan := responseChan w @
                                          [\<lparr> RequestID = ID req, RespData = snd (world r),
                                             Error = returned r,
                                             Duration = time_since (finished r) now \<rparr>] \<rparr>
                                   else w), t, fst (world r))))))"

text \<open>
  The inner loop of \<open>processLoop\<close>, entered once the context is done: it handles the requests
  still in the channel, oldest first, and returns when there is none.
\<close>

fun drainRequests ::
  "nat \<Rightarrow> (int \<Rightarrow> string) \<Rightarrow> (string \<Rightarrow> string) \<Rightarrow> scheduler \<Rightarrow> 't Request list \<Rightarrow> ('t, 'r, 'w) AsyncRequestProcessor \<Rightarrow>
   int \<Rightarrow> 'w \<Rightarrow> (panic + (('t, 'r, 'w) AsyncRequestProcessor \<times> int \<times> 'w)) option" where
  "drainRequests fuel durString toLower sc [] w now wd = Some (Inr (w, now, wd))"
| "drainRequests fuel durString toLower sc (req # rest) w now wd =
     (case processRequest fuel durString toLower sc (w \<lparr> requestChan := rest \<rparr>) req now wd of
        None \<Rightarrow> None
      | Some (Inl p) \<Rightarrow> Some (Inl p)
      | Some (Inr (w1, t1, wd1)) \<Rightarrow> drainRequests fuel durString toLower sc rest w1 t1 wd1)"

text \<open>
  The outer loop of \<open>processLoop\<close> from the instant the context is done.  With a request
  waiting both cases of its \<open>select\<close> are ready: either the request is handled and the loop
  goes round, or the inner loop is entered.
\<close>

fun processLoopDone ::
  "nat \<Rightarrow> (int \<Rightarrow> string) \<Rightarrow> (string \<Rightarrow> string) \<Rightarrow> scheduler \<Rightarrow> 't Request list \<Rightarrow> ('t, 'r, 'w) AsyncRequestProcessor \<Rightarrow>
   int \<Rightarrow> 'w \<Rightarrow> (panic + (('t, 'r, 'w) AsyncRequestProcessor \<times> int \<times> 'w)) option" where
  "processLoopDone fuel durString toLower sc [] w now wd = drainRequests fuel durString toLower sc [] w now wd"
| "processLoopDone fuel durString toLower sc (req # rest) w now wd =
     (if exitDraw sc (length (handled w))
      then drainRequests fuel durString toLower sc (req # rest) w now wd
      else (case processRequest fuel durString toLower sc (w \<lparr> requestChan := rest \<rparr>) req now wd of
              None \<Rightarrow> None
            | Some (Inl p) \<Rightarrow> Some (Inl p)
            | Some (Inr (w1, t1, wd1)) \<Rightarrow> processLoopDone fuel durString toLower sc rest w1 t1 wd1))"

text \<open>
  \<open>Stop\<close>, called at the instant the context is done: the worker, free from instant
  \<open>clock\<close>, runs the rest of \<open>processLoop\<close>; when it has returned the response channel is
  closed.  A processor whose context is never done is never stopped.
\<close>

definition Stop ::
  "nat \<Rightarrow> (int \<Rightarrow> string) \<Rightarrow> (string \<Rightarrow> string) \<Rightarrow> scheduler \<Rightarrow> ('t, 'r, 'w) AsyncRequestProcessor \<Rightarrow> int \<Rightarrow> 'w \<Rightarrow>
   (panic + (('t, 'r, 'w) AsyncRequestProcessor \<times> int \<times> 'w)) option" where
  "Stop fuel durString toLower sc w clock wd =
     (case expires (workerCtx w) of
        None \<Rightarrow> None
      | Some T \<Rightarrow>
          (case processLoopDone fuel durString toLower sc (requestChan w) w (max clock T) wd of
             None \<Rightarrow> None
           | Some (Inl p) \<Rightarrow> Some (Inl p)
           | Some (Inr (w1, t1, wd1)) \<Rightarrow> Some (Inr (w1 \<lparr> closed := True \<rparr>, t1, wd1))))"

text \<open>
  What happens between \<open>Start\<close> and \<open>Stop\<close>, in the order it happens: a caller submits a
  request at an instant, or the worker, in the \<open>select\<close> of \<open>processLoop\<close>, receives the
  oldest request of the channel at an instant and handles it (nothing happens when the channel
  is empty).  The run gives the answers of the \<open>Submit\<close> calls and the processor, the instant
  from which the worker is free and the world afterwards.
\<close>

datatype 't event = SubmitEv int "'t Request" bool | TakeEv int

fun runEvents ::
  "nat \<Rightarrow> (int \<Rightarrow> string) \<Rightarrow> (string \<Rightarrow> string) \<Rightarrow> scheduler \<Rightarrow> 't event list \<Rightarrow> ('t, 'r, 'w) AsyncRequestProcessor \<Rightarrow>
   int \<Rightarrow> 'w \<Rightarrow> (panic + (bool list \<times> ('t, 'r, 'w) AsyncRequestProcessor \<times> int \<times> 'w)) option" where
  "runEvents fuel durString toLower sc [] w clock wd = Some (Inr ([], w, clock, wd))"
| "runEvents fuel durString toLower sc (SubmitEv t req pickDone # evs) w clock wd =
     (case runEvents fuel durString toLower sc evs (snd (Submit w req t pickDone)) clock wd of
        None \<Rightarrow> None
      | Some (Inl p) \<Rightarrow> Some (Inl p)
      | Some (Inr (oks, w1, t1, wd1)) \<Rightarrow>
          Some (Inr (fst (Submit w req t pickDone) # oks, w1, t1, wd1)))"
| "runEvents fuel durString toLower sc (TakeEv t # evs) w clock wd =
     (case requestChan w of
        [] \<Rightarrow> runEvents fuel durString toLower sc evs w clock wd
      | req # rest \<Rightarrow>
          (case processRequest fuel durString toLower sc (w \<lparr> requestChan := rest \<rparr>) req (max t clock) wd of
             None \<Rightarrow> None
           | Some (Inl p) \<Rightarrow> Some (Inl p)
           | Some (Inr (w1, t1, wd1)) \<Rightarrow> runEvents fuel durString toLower sc evs w1 t1 wd1))"


text \<open>Values for concrete runs: schedulers and a processor that answers at once.\<close>

definition noDraw :: "nat \<Rightarrow> nat \<Rightarrow> nat" where
  "noDraw i k = 0"

definition always :: "bool \<Rightarrow> nat \<Rightarrow> bool" where
  "always b i = b"

definition echoProcessor :: "(string, string, nat) RequestProcessor" where
  "echoProcessor c req t wd = (((Data req, None), 0), wd + 1)"

definition reqA :: "string Request" where
  "reqA = \<lparr> ID = ''a'', Data = ''x'', CreatedAt = 0 \<rparr>"

definition reqB :: "string Request" where
  "reqB = \<lparr> ID = ''b'', Data = ''y'', CreatedAt = 0 \<rparr>"

definition someConfig :: RetryConfig where
  "someConfig = \<lparr> MaxDuration = 1000, InitialInterval = 1, MaxInterval = 1, IntervalIncrement = 0 \<rparr>"

definition neverDrop :: scheduler where
  "neverDrop = \<lparr> retryDraw = noDraw, dropDraw = always False, exitDraw = always False \<rparr>"

definition alwaysDrop :: scheduler where
  "alwaysDrop = \<lparr> retryDraw = noDraw, dropDraw = always True, exitDraw = always False \<rparr>"

text \<open>Two predicates on a processor: every response on the channel belongs, in order, to a
  request that was handled; every request handled has its response on the channel.\<close>

definition sameSetup ::
  "('t, 'r, 'w) AsyncRequestProcessor \<Rightarrow> ('t, 'r, 'w) AsyncRequestProcessor \<Rightarrow> bool" where
  "sameSetup w w1 \<longleftrightarrow>
     bufferSize w1 = bufferSize w \<and> workerCtx w1 = workerCtx w \<and>
     retryConfig w1 = retryConfig w \<and> closed w1 = closed w"




section \<open>Circuit breaker: properties\<close>

lemma toState_state [simp]: "currentState (toState s cb) = s"
  by (simp add: toState_def)












text \<open>The success counter is never negative in a breaker made by \<open>New\<close> and used by \<open>Execute\<close>.\<close>

lemma successCount_Execute:
  "0 \<le> successCount cb \<Longrightarrow> 0 \<le> successCount (snd (snd (Execute c cb)))"
  by (simp add: Execute_def allowRequest_def handleResult_def onFailure_def onSuccess_def
      toHalfOpen_def toState_def Let_def split: State.splits option.splits)

lemma successCount_executeAll:
  "0 \<le> successCount cb \<Longrightarrow> 0 \<le> successCount (executeAll cs cb)"
  by (induction cs arbitrary: cb) (simp_all add: successCount_Execute)

lemma successCount_reachable: "0 \<le> successCount (executeAll cs (New options))"
  by (rule successCount_executeAll) (simp add: New_def)

lemma halfOpen_two_successes:
  assumes "currentState cb = StateHalfOpen" "0 \<le> successCount cb"
    "outcome c = None" "outcome c2 = None"
  shows "currentState (executeAll [c, c2] cb) = StateClosed \<and>
         failureCount (executeAll [c, c2] cb) = 0 \<and> successCount (executeAll [c, c2] cb) = 0"
  using assms
  by (simp add: Execute_def allowRequest_def handleResult_def onSuccess_def toState_def Let_def)

lemma halfOpen_failure:
  assumes "currentState cb = StateHalfOpen" "outcome c = Some e"
  shows "Execute c cb = (Some e, True,
           cb \<lparr> failureCount := 0, lastFailureTime := doneAt c, currentState := StateOpen,
                successCount := 0, stateChanges := stateChanges cb @ [(StateHalfOpen, StateOpen)],
                errorsSeen := errorsSeen cb @ [e] \<rparr>)"
  using assms
  by (simp add: Execute_def allowRequest_def handleResult_def onFailure_def toState_def Let_def)

lemma open_admitted:
  assumes "currentState cb = StateOpen"
    "resetTimeout cb < time_since (callAt c) (lastFailureTime cb)"
  shows "allowRequest (callAt c) cb =
           (True, cb \<lparr> currentState := StateHalfOpen, failureCount := 0, successCount := 0,
                       stateChanges := stateChanges cb @ [(StateOpen, StateHalfOpen)] \<rparr>)"
  using assms by (simp add: allowRequest_def toHalfOpen_def toState_def)

lemma open_probe:
  assumes "currentState cb = StateOpen"
    "resetTimeout cb < time_since (callAt c) (lastFailureTime cb)"
  shows "fst (allowRequest (callAt c) cb)"
    "GetState (snd (allowRequest (callAt c) cb)) = StateHalfOpen"
    "fst (Execute c cb) = outcome c" "fst (snd (Execute c cb))"
    "outcome c = None \<Longrightarrow> GetState (snd (snd (Execute c cb))) = StateHalfOpen"
    "outcome c \<noteq> None \<Longrightarrow> GetState (snd (snd (Execute c cb))) = StateOpen"
    "outcome c = None \<Longrightarrow> outcome c2 = None \<Longrightarrow>
       GetState (executeAll [c, c2] cb) = StateClosed
       \<and> failureCount (executeAll [c, c2] cb) = 0 \<and> successCount (executeAll [c, c2] cb) = 0"
  using open_admitted [OF assms]
  by (auto simp add: GetState_def Execute_def handleResult_def onSuccess_def onFailure_def
      allowRequest_def toState_def Let_def)

lemmas cb_eval = New_def Execute_def allowRequest_def handleResult_def onFailure_def onSuccess_def
  toState_def toHalfOpen_def Let_def time_since_def minDuration_def maxDuration_def GetState_def
  opened_def circuitOpenError_def

text \<open>
  Claim C4.  Take a breaker in the Open state and a call issued when more than
  \<open>resetTimeout\<close> has passed since the last failure (the comparison of the code is strict:
  at exactly \<open>resetTimeout\<close> the call is still rejected).  The call is admitted, the breaker
  is Half-Open at admission, \<open>Execute\<close> invokes the operation and returns what it returned;
  after a successful probe the breaker reports Half-Open, after a failed probe it is Open
  again, and a successful probe followed by a second successful call leaves it Closed with
  both counters at zero.  For every Half-Open breaker reached from \<open>New\<close> by \<open>Execute\<close>
  calls, one failed call takes it to Open (reported as the transition Half-Open to Open), and
  two consecutive successful calls take it to Closed with both counters at zero.
\<close>

theorem open_probe_and_half_open_transitions:
  assumes openState: "GetState cbO = StateOpen"
    and elapsedS: "resetTimeout cbO < time_since (callAt ps) (lastFailureTime cbO)"
    and elapsedF: "resetTimeout cbO < time_since (callAt pf) (lastFailureTime cbO)"
    and probes: "outcome ps = None" "outcome pf = Some e"
    and reach: "cbH = executeAll csH (New optH)"
    and halfOpen: "GetState cbH = StateHalfOpen"
    and calls: "outcome f = Some e'" "outcome s1 = None" "outcome s2 = None"
  shows "fst (allowRequest (callAt ps) cbO) \<and>
         GetState (snd (allowRequest (callAt ps) cbO)) = StateHalfOpen \<and>
         Execute ps cbO = (None, True, snd (snd (Execute ps cbO))) \<and>
         GetState (snd (snd (Execute ps cbO))) = StateHalfOpen \<and>
         Execute pf cbO = (Some e, True, snd (snd (Execute pf cbO))) \<and>
         GetState (snd (snd (Execute pf cbO))) = StateOpen \<and>
         GetState (executeAll [ps, s2] cbO) = StateClosed \<and>
         failureCount (executeAll [ps, s2] cbO) = 0 \<and>
         successCount (executeAll [ps, s2] cbO) = 0 \<and>
         Execute f cbH = (Some e', True, snd (snd (Execute f cbH))) \<and>
         GetState (snd (snd (Execute f cbH))) = StateOpen \<and>
         stateChanges (snd (snd (Execute f cbH))) = stateChanges cbH @ [(StateHalfOpen, StateOpen)] \<and>
         GetState (executeAll [s1, s2] cbH) = StateClosed \<and>
         failureCount (executeAll [s1, s2] cbH) = 0 \<and>
         successCount (executeAll [s1, s2] cbH) = 0"
proof -
  have o: "currentState cbO = StateOpen" using openState by (simp add: GetState_def)
  have h: "currentState cbH = StateHalfOpen" using halfOpen by (simp add: GetState_def)
  have nn: "0 \<le> successCount cbH" using reach by (simp add: successCount_reachable)
  note ps = open_probe [OF o elapsedS]
  note pf = open_probe [OF o elapsedF]
  have 1: "fst (allowRequest (callAt ps) cbO)" by (rule ps(1))
  have 2: "GetState (snd (allowRequest (callAt ps) cbO)) = StateHalfOpen" by (rule ps(2))
  have 3: "Execute ps cbO = (None, True, snd (snd (Execute ps cbO)))"
    using ps(3,4) probes(1) by (cases "Execute ps cbO") simp
  have 4: "GetState (snd (snd (Execute ps cbO))) = StateHalfOpen" using ps(5) probes(1) by simp
  have 5: "Execute pf cbO = (Some e, True, snd (snd (Execute pf cbO)))"
    using pf(3,4) probes(2) by (cases "Execute pf cbO") simp
  have 6: "GetState (snd (snd (Execute pf cbO))) = StateOpen" using pf(6) probes(2) by simp
  have 7: "GetState (executeAll [ps, s2] cbO) = StateClosed \<and>
         failureCount (executeAll [ps, s2] cbO) = 0 \<and>
         successCount (executeAll [ps, s2] cbO) = 0"
    using ps(7) [of s2] probes(1) calls(3) by simp
  have 8: "Execute f cbH = (Some e', True, snd (snd (Execute f cbH)))"
    by (simp add: halfOpen_failure [OF h calls(1)])
  have 9: "GetState (snd (snd (Execute f cbH))) = StateOpen"
    by (simp add: halfOpen_failure [OF h calls(1)] GetState_def)
  have 10: "stateChanges (snd (snd (Execute f cbH))) = stateChanges cbH @ [(StateHalfOpen, StateOpen)]"
    by (simp add: halfOpen_failure [OF h calls(1)])
  have 11: "GetState (executeAll [s1, s2] cbH) = StateClosed \<and>
         failureCount (executeAll [s1, s2] cbH) = 0 \<and>
         successCount (executeAll [s1, s2] cbH) = 0"
    using halfOpen_two_successes [OF h nn calls(2,3)] by (simp add: GetState_def)
  from 1 2 3 4 5 6 7 8 9 10 11 show ?thesis by blast
qed

theorem open_probe_and_half_open_transitions_witness:
  "GetState (executeAll [\<lparr>callAt = 0, outcome = Some (ErrorString ''down''), doneAt = 1\<rparr>]
       (New \<lparr>FailureThreshold = 1, ResetTimeout = 10\<rparr>)) = StateOpen \<and>
   GetState (executeAll [\<lparr>callAt = 0, outcome = Some (ErrorString ''down''), doneAt = 1\<rparr>,
                        \<lparr>callAt = 20, outcome = None, doneAt = 21\<rparr>]
       (New \<lparr>FailureThreshold = 1, ResetTimeout = 10\<rparr>)) = StateHalfOpen \<and>
   GetState (executeAll [\<lparr>callAt = 0, outcome = Some (ErrorString ''down''), doneAt = 1\<rparr>,
                        \<lparr>callAt = 20, outcome = Some (ErrorString ''still down''), doneAt = 21\<rparr>]
       (New \<lparr>FailureThreshold = 1, ResetTimeout = 10\<rparr>)) = StateOpen \<and>
   GetState (executeAll [\<lparr>callAt = 0, outcome = Some (ErrorString ''down''), doneAt = 1\<rparr>,
                        \<lparr>callAt = 20, outcome = None, doneAt = 21\<rparr>,
                        \<lparr>callAt = 22, outcome = Some (ErrorString ''again''), doneAt = 23\<rparr>]
       (New \<lparr>FailureThreshold = 1, ResetTimeout = 10\<rparr>)) = StateOpen \<and>
   GetState (executeAll [\<lparr>callAt = 0, outcome = Some (ErrorString ''down''), doneAt = 1\<rparr>,
                        \<lparr>callAt = 20, outcome = None, doneAt = 21\<rparr>,
                        \<lparr>callAt = 24, outcome = None, doneAt = 25\<rparr>]
       (New \<lparr>FailureThreshold = 1, ResetTimeout = 10\<rparr>)) = StateClosed"
proof -
  let ?o = "\<lparr>FailureThreshold = 1, ResetTimeout = 10\<rparr>"
  let ?d = "\<lparr>callAt = 0, outcome = Some (ErrorString ''down''), doneAt = 1\<rparr>"
  let ?ps = "\<lparr>callAt = 20, outcome = None, doneAt = 21\<rparr>"
  let ?pf = "\<lparr>callAt = 20, outcome = Some (ErrorString ''still down''), doneAt = 21\<rparr>"
  let ?f = "\<lparr>callAt = 22, outcome = Some (ErrorString ''again''), doneAt = 23\<rparr>"
  let ?s = "\<lparr>callAt = 24, outcome = None, doneAt = 25\<rparr>"
  let ?cbO = "executeAll [?d] (New ?o)"
  let ?cbH = "executeAll [?d, ?ps] (New ?o)"
  have h1: "GetState ?cbO = StateOpen" by (simp add: cb_eval)
  have h2: "resetTimeout ?cbO < time_since (callAt ?ps) (lastFailureTime ?cbO)" by (simp add: cb_eval)
  have h3: "resetTimeout ?cbO < time_since (callAt ?pf) (lastFailureTime ?cbO)" by (simp add: cb_eval)
  have h4: "outcome ?ps = None" "outcome ?pf = Some (ErrorString ''still down'')" by simp_all
  have h5: "?cbH = executeAll [?d, ?ps] (New ?o)" by (rule refl)
  have h6: "GetState ?cbH = StateHalfOpen" by (simp add: cb_eval)
  have h7: "outcome ?f = Some (ErrorString ''again'')" "outcome ?s = None" by simp_all
  note main = open_probe_and_half_open_transitions [OF h1 h2 h3 h4 h5 h6 h7(1) h7(2) h7(2)]
  have a: "GetState (executeAll [?d, ?pf] (New ?o)) = StateOpen" using main by simp
  have b: "GetState (executeAll [?d, ?ps, ?f] (New ?o)) = StateOpen" using main by simp
  have c: "GetState (executeAll [?d, ?ps, ?s] (New ?o)) = StateClosed" using main by simp
  from h1 h6 a b c show ?thesis by blast
qed




section \<open>Nonce tracker: properties\<close>


lemma refetch_keeps_first:
  "isFirstFetch (snd (ForceRefetch ctx now p n)) = isFirstFetch n"
  by (simp add: ForceRefetch_def refetchAndUpdateNonce_def Let_def split: option.splits)

lemma refetch_success_stores:
  assumes "ForceRefetch ctx now p n = ((r, None), n')"
  shows "nonceData n' = r \<and> isFirstFetch n' = isFirstFetch n"
  using assms
  by (auto simp add: ForceRefetch_def refetchAndUpdateNonce_def Let_def split: option.splits if_splits)



lemma incrementMany_later:
  "\<not> isFirstFetch n \<Longrightarrow>
   incrementMany k n = map (\<lambda>j. (nonceData n) \<lparr> Nonce := Nonce (nonceData n) + 1 + of_nat j \<rparr>) [0..<k]"
proof (induction k arbitrary: n)
  case 0
  then show ?case by simp
next
  case (Suc k)
  let ?n1 = "snd (IncrementAndGet n)"
  have n1: "\<not> isFirstFetch ?n1" "nonceData ?n1 = (nonceData n) \<lparr> Nonce := Nonce (nonceData n) + 1 \<rparr>"
    using Suc.prems by (simp_all add: IncrementAndGet_def)
  have hd: "fst (IncrementAndGet n) = (nonceData n) \<lparr> Nonce := Nonce (nonceData n) + 1 \<rparr>"
    using Suc.prems by (simp add: IncrementAndGet_def)
  have "incrementMany k ?n1 =
      map (\<lambda>j. (nonceData ?n1) \<lparr> Nonce := Nonce (nonceData ?n1) + 1 + of_nat j \<rparr>) [0..<k]"
    by (rule Suc.IH [OF n1(1)])
  then have tl: "incrementMany k ?n1 =
      map (\<lambda>j. (nonceData n) \<lparr> Nonce := Nonce (nonceData n) + 1 + of_nat (Suc j) \<rparr>) [0..<k]"
    by (simp add: n1(2) add.assoc add.commute)
  have "[0..<Suc k] = 0 # map Suc [0..<k]"
    by (simp add: upt_conv_Cons map_Suc_upt del: upt_Suc)
  then show ?case using hd tl by (simp add: comp_def del: upt_Suc)
qed

lemma incrementMany_first:
  assumes "isFirstFetch n"
  shows "incrementMany k n = map (\<lambda>j. (nonceData n) \<lparr> Nonce := Nonce (nonceData n) + of_nat j \<rparr>) [0..<k]"
proof (cases k)
  case 0
  then show ?thesis by simp
next
  case (Suc m)
  let ?n1 = "snd (IncrementAndGet n)"
  have n1: "\<not> isFirstFetch ?n1" "nonceData ?n1 = nonceData n"
    using assms by (simp_all add: IncrementAndGet_def)
  have hd: "fst (IncrementAndGet n) = nonceData n"
    using assms by (simp add: IncrementAndGet_def)
  have tl: "incrementMany m ?n1 =
      map (\<lambda>j. (nonceData n) \<lparr> Nonce := Nonce (nonceData n) + of_nat (Suc j) \<rparr>) [0..<m]"
    using incrementMany_later [OF n1(1), of m] by (simp add: n1(2) add.assoc add.commute)
  have "[0..<Suc m] = 0 # map Suc [0..<m]"
    by (simp add: upt_conv_Cons map_Suc_upt del: upt_Suc)
  then show ?thesis using hd tl Suc by (simp add: comp_def del: upt_Suc)
qed



lemmas nt_eval = ForceRefetch_def refetchAndUpdateNonce_def doneFirst_def NewNonceTracker_def IncrementAndGet_def
  GetLastRefetchTime_def WithTimeout_def Background_def zeroNonce_def zero_time_def time_since_def
  minDuration_def maxDuration_def fetchTen_def fetchFails_def Let_def


text \<open>
  Claim C9.  Whenever \<open>ForceRefetch\<close> returns an error (the call was throttled, the context
  was done first, or the fetch function failed), the record it returns is the zero value.
\<close>

theorem force_refetch_error_gives_zero_record:
  "snd (fst (ForceRefetch ctx now pickDone n)) \<noteq> None \<longrightarrow>
   fst (fst (ForceRefetch ctx now pickDone n)) = zeroNonce"
  by (simp add: ForceRefetch_def refetchAndUpdateNonce_def Let_def split: option.splits)

theorem force_refetch_error_gives_zero_record_witness:
  "snd (fst (ForceRefetch Background 100 False
       (snd (ForceRefetch Background 90 False (NewNonceTracker fetchTen 60 5))))) \<noteq> None \<and>
   nonceData (snd (ForceRefetch Background 90 False (NewNonceTracker fetchTen 60 5)))
     = \<lparr> Nonce = 10, Accnum = 1 \<rparr> \<and>
   fst (fst (ForceRefetch Background 100 False
       (snd (ForceRefetch Background 90 False (NewNonceTracker fetchTen 60 5))))) = zeroNonce \<and>
   snd (fst (ForceRefetch Background 90 False (NewNonceTracker fetchFails 60 5))) \<noteq> None \<and>
   fst (fst (ForceRefetch Background 90 False (NewNonceTracker fetchFails 60 5))) = zeroNonce"
proof -
  let ?n = "snd (ForceRefetch Background 90 False (NewNonceTracker fetchTen 60 5))"
  let ?m = "NewNonceTracker fetchFails 60 5"
  have h1: "snd (fst (ForceRefetch Background 100 False ?n)) \<noteq> None"
    by (simp add: nt_eval)
  have h2: "snd (fst (ForceRefetch Background 90 False ?m)) \<noteq> None"
    by (simp add: nt_eval)
  have h3: "nonceData ?n = \<lparr> Nonce = 10, Accnum = 1 \<rparr>"
    by (simp add: nt_eval)
  from force_refetch_error_gives_zero_record [of Background 100 False ?n]
       force_refetch_error_gives_zero_record [of Background 90 False ?m] h1 h2 h3
  show ?thesis by blast
qed





text \<open>
  Claim C3, as the code has it.  \<open>IncrementAndGet\<close> on a new tracker returns the zero record,
  leaves the stored record as it is and clears the first-call flag.  After a successful
  \<open>ForceRefetch\<close> that stores a record with sequence \<open>S\<close>, the following calls return
  \<open>S, S+1, S+2, \<dots>\<close> when \<open>IncrementAndGet\<close> had not been called before the refetch, and
  \<open>S+1, S+2, S+3, \<dots>\<close> when it had (sums are modulo \<open>2^64\<close>, the account number is the
  fetched one).
\<close>

theorem increment_and_get_sequence:
  "fst (IncrementAndGet (NewNonceTracker fetch interval timeout)) = zeroNonce \<and>
   nonceData (snd (IncrementAndGet (NewNonceTracker fetch interval timeout))) = zeroNonce \<and>
   \<not> isFirstFetch (snd (IncrementAndGet (NewNonceTracker fetch interval timeout))) \<and>
   (isFirstFetch nA \<and> ForceRefetch ctxA tA pA nA = ((rA, None), nA') \<longrightarrow>
      incrementMany k nA' = map (\<lambda>j. rA \<lparr> Nonce := Nonce rA + of_nat j \<rparr>) [0..<k]) \<and>
   (\<not> isFirstFetch nB \<and> ForceRefetch ctxB tB pB nB = ((rB, None), nB') \<longrightarrow>
      incrementMany k nB' = map (\<lambda>j. rB \<lparr> Nonce := Nonce rB + 1 + of_nat j \<rparr>) [0..<k])"
proof -
  have 1: "fst (IncrementAndGet (NewNonceTracker fetch interval timeout)) = zeroNonce \<and>
   nonceData (snd (IncrementAndGet (NewNonceTracker fetch interval timeout))) = zeroNonce \<and>
   \<not> isFirstFetch (snd (IncrementAndGet (NewNonceTracker fetch interval timeout)))"
    by (simp add: IncrementAndGet_def NewNonceTracker_def)
  have 2: "incrementMany k nA' = map (\<lambda>j. rA \<lparr> Nonce := Nonce rA + of_nat j \<rparr>) [0..<k]"
    if "isFirstFetch nA" "ForceRefetch ctxA tA pA nA = ((rA, None), nA')"
    using refetch_success_stores [OF that(2)] that(1) incrementMany_first [of nA' k] by simp
  have 3: "incrementMany k nB' = map (\<lambda>j. rB \<lparr> Nonce := Nonce rB + 1 + of_nat j \<rparr>) [0..<k]"
    if "\<not> isFirstFetch nB" "ForceRefetch ctxB tB pB nB = ((rB, None), nB')"
    using refetch_success_stores [OF that(2)] that(1) incrementMany_later [of nB' k] by simp
  from 1 2 3 show ?thesis by blast
qed

theorem increment_and_get_sequence_witness:
  "isFirstFetch (NewNonceTracker fetchTen 60 5) \<and>
   fst (ForceRefetch Background 90 False (NewNonceTracker fetchTen 60 5))
      = (\<lparr> Nonce = 10, Accnum = 1 \<rparr>, None) \<and>
   incrementMany 3 (snd (ForceRefetch Background 90 False (NewNonceTracker fetchTen 60 5)))
      = [\<lparr> Nonce = 10, Accnum = 1 \<rparr>, \<lparr> Nonce = 11, Accnum = 1 \<rparr>, \<lparr> Nonce = 12, Accnum = 1 \<rparr>] \<and>
   \<not> isFirstFetch (snd (IncrementAndGet (NewNonceTracker fetchTen 60 5))) \<and>
   fst (ForceRefetch Background 90 False (snd (IncrementAndGet (NewNonceTracker fetchTen 60 5))))
      = (\<lparr> Nonce = 10, Accnum = 1 \<rparr>, None) \<and>
   incrementMany 3 (snd (ForceRefetch Background 90 False
                      (snd (IncrementAndGet (NewNonceTracker fetchTen 60 5)))))
      = [\<lparr> Nonce = 11, Accnum = 1 \<rparr>, \<lparr> Nonce = 12, Accnum = 1 \<rparr>, \<lparr> Nonce = 13, Accnum = 1 \<rparr>]"
proof -
  let ?a = "NewNonceTracker fetchTen 60 5"
  let ?b = "snd (IncrementAndGet ?a)"
  let ?r = "\<lparr> Nonce = 10, Accnum = 1 \<rparr>"
  have a1: "isFirstFetch ?a" by (simp add: nt_eval)
  have a2: "fst (ForceRefetch Background 90 False ?a) = (?r, None)" by (simp add: nt_eval)
  have b1: "\<not> isFirstFetch ?b" by (simp add: nt_eval)
  have b2: "fst (ForceRefetch Background 90 False ?b) = (?r, None)" by (simp add: nt_eval)
  have a3: "ForceRefetch Background 90 False ?a = ((?r, None), snd (ForceRefetch Background 90 False ?a))"
    using a2 by (cases "ForceRefetch Background 90 False ?a") simp
  have b3: "ForceRefetch Background 90 False ?b = ((?r, None), snd (ForceRefetch Background 90 False ?b))"
    using b2 by (cases "ForceRefetch Background 90 False ?b") simp
  have up: "[0..<3] = [0, 1, 2]" by (simp add: upt_rec)
  note main = increment_and_get_sequence [where nA = ?a and ctxA = Background and tA = 90
      and pA = False and rA = ?r and nA' = "snd (ForceRefetch Background 90 False ?a)" and k = 3
      and nB = ?b and ctxB = Background and tB = 90 and pB = False and rB = ?r
      and nB' = "snd (ForceRefetch Background 90 False ?b)"]
  have ra: "incrementMany 3 (snd (ForceRefetch Background 90 False ?a))
      = [\<lparr> Nonce = 10, Accnum = 1 \<rparr>, \<lparr> Nonce = 11, Accnum = 1 \<rparr>, \<lparr> Nonce = 12, Accnum = 1 \<rparr>]"
    using main a1 a3 by (simp add: up)
  have rb: "incrementMany 3 (snd (ForceRefetch Background 90 False ?b))
      = [\<lparr> Nonce = 11, Accnum = 1 \<rparr>, \<lparr> Nonce = 12, Accnum = 1 \<rparr>, \<lparr> Nonce = 13, Accnum = 1 \<rparr>]"
    using main b1 b3 by (simp add: up)
  from a1 a2 ra b1 b2 rb show ?thesis by blast
qed

text \<open>
  A new tracker, one \<open>IncrementAndGet\<close> (the zero record), a successful refetch storing
  sequence 10: the next \<open>IncrementAndGet\<close> returns 11, not 10.
\<close>

theorem second_call_after_refetch_counterexample:
  "fst (IncrementAndGet (NewNonceTracker fetchTen 60 5)) = zeroNonce \<and>
   fst (ForceRefetch Background 90 False (snd (IncrementAndGet (NewNonceTracker fetchTen 60 5))))
      = (\<lparr> Nonce = 10, Accnum = 1 \<rparr>, None) \<and>
   fst (IncrementAndGet (snd (ForceRefetch Background 90 False
                                (snd (IncrementAndGet (NewNonceTracker fetchTen 60 5))))))
      = \<lparr> Nonce = 11, Accnum = 1 \<rparr> \<and>
   fst (IncrementAndGet (snd (ForceRefetch Background 90 False
                                (snd (IncrementAndGet (NewNonceTracker fetchTen 60 5))))))
      \<noteq> \<lparr> Nonce = 10, Accnum = 1 \<rparr>"
  by (simp add: nt_eval)

section \<open>Backoff retry: properties\<close>

lemma Contains_iff: "Contains s sub \<longleftrightarrow> (\<exists>ps ss. s = ps @ sub @ ss)"
proof (induction s)
  case Nil
  then show ?case by auto
next
  case (Cons c s)
  show ?case
  proof
    assume "Contains (c # s) sub"
    then consider "prefix sub (c # s)" | "Contains s sub" by auto
    then show "\<exists>ps ss. c # s = ps @ sub @ ss"
    proof cases
      case 1
      then obtain ss where "c # s = sub @ ss" by (auto simp: prefix_def)
      then have "c # s = [] @ sub @ ss" by simp
      then show ?thesis by blast
    next
      case 2
      with Cons.IH obtain ps ss where "s = ps @ sub @ ss" by blast
      then have "c # s = (c # ps) @ sub @ ss" by simp
      then show ?thesis by blast
    qed
  next
    assume "\<exists>ps ss. c # s = ps @ sub @ ss"
    then obtain ps ss where eq: "c # s = ps @ sub @ ss" by blast
    show "Contains (c # s) sub"
    proof (cases ps)
      case Nil
      with eq have "prefix sub (c # s)" by (simp add: prefix_def)
      then show ?thesis by simp
    next
      case (Cons p ps')
      with eq have "s = ps' @ sub @ ss" by simp
      with Cons.IH have "Contains s sub" by blast
      then show ?thesis by simp
    qed
  qed
qed

lemma matchesAny_iff:
  "matchesAny toLower errStr pats \<longleftrightarrow> (\<exists>p \<in> set pats. Contains errStr (toLower p))"
  by (induction pats) auto

lemma isNonRetriable_iff:
  "isNonRetriable durString toLower (Some e) pats \<longleftrightarrow>
     (\<exists>p \<in> set pats. \<exists>ps ss. toLower (error_text durString e) = ps @ toLower p @ ss)"
  by (cases pats) (simp_all add: isNonRetriable_def matchesAny_iff Contains_iff del: matchesAny.simps)

lemma isNonRetriable_no_patterns: "\<not> isNonRetriable durString toLower err []"
  by (simp add: isNonRetriable_def split: option.splits)

lemma selectAt_some_ready:
  "timerAt \<le> selectAt ctx timerAt now interval \<or>
   now + max 0 interval \<le> selectAt ctx timerAt now interval \<or>
   ctx_done ctx (selectAt ctx timerAt now interval)"
proof (cases "expires ctx")
  case None
  then have "selectAt ctx timerAt now interval = max now (min timerAt (now + max 0 interval))"
    by (simp add: selectAt_def)
  then show ?thesis by linarith
next
  case (Some d)
  then have at: "selectAt ctx timerAt now interval = max now (min d (min timerAt (now + max 0 interval)))"
    by (simp add: selectAt_def)
  have dn: "ctx_done ctx (selectAt ctx timerAt now interval) \<longleftrightarrow>
      d \<le> selectAt ctx timerAt now interval"
    using Some by (simp add: ctx_done_def)
  have "timerAt \<le> selectAt ctx timerAt now interval \<or>
      now + max 0 interval \<le> selectAt ctx timerAt now interval \<or>
      d \<le> selectAt ctx timerAt now interval"
    unfolding at by linarith
  then show ?thesis using dn by blast
qed

lemma selectReady_nonempty: "selectReady ctx timerAt now interval \<noteq> []"
  using selectAt_some_ready [of timerAt ctx now interval]
  by (auto simp add: selectReady_def Let_def)

lemma selectCase_in_ready:
  "selectCase choice ctx timerAt now interval \<in> set (selectReady ctx timerAt now interval)"
proof -
  let ?r = "selectReady ctx timerAt now interval"
  have ne: "?r \<noteq> []" by (rule selectReady_nonempty)
  then have "choice mod length ?r < length ?r" by simp
  then have "?r ! (choice mod length ?r) \<in> set ?r" by (rule nth_mem)
  with ne show ?thesis by (simp add: selectCase_def Let_def)
qed

lemma selectCase_CtxDone:
  "selectCase choice ctx timerAt now interval = CtxDone \<Longrightarrow>
   ctx_done ctx (selectAt ctx timerAt now interval)"
  using selectCase_in_ready [of choice ctx timerAt now interval]
  by (simp add: selectReady_def Let_def split: if_splits)

lemma selectCase_TimerFired:
  "selectCase choice ctx timerAt now interval = TimerFired \<Longrightarrow>
   timerAt \<le> selectAt ctx timerAt now interval"
  using selectCase_in_ready [of choice ctx timerAt now interval]
  by (simp add: selectReady_def Let_def split: if_splits)

declare retryLoop.simps [simp del]

lemma retryLoop_success:
  assumes "fst (fst (operation ctx now w)) = None"
  shows "retryLoop (Suc fuel) durString toLower choices ctx cfg operation pats timerAt interval k now w =
           Some \<lparr> returned = None, calls = k + 1, lastError = None, leftBy = Succeeded,
                  finished = now + int (snd (fst (operation ctx now w))),
                  world = snd (operation ctx now w) \<rparr>"
  unfolding retryLoop.simps Let_def using assms by simp

lemma retryLoop_non_retriable:
  assumes "fst (fst (operation ctx now w)) = Some e" "isNonRetriable durString toLower (Some e) pats"
  shows "retryLoop (Suc fuel) durString toLower choices ctx cfg operation pats timerAt interval k now w =
           Some \<lparr> returned = Some e, calls = k + 1, lastError = Some e, leftBy = NonRetriable,
                  finished = now + int (snd (fst (operation ctx now w))),
                  world = snd (operation ctx now w) \<rparr>"
  unfolding retryLoop.simps Let_def using assms by simp

lemma retryLoop_retriable:
  assumes "fst (fst (operation ctx now w)) = Some e" "\<not> isNonRetriable durString toLower (Some e) pats"
  shows "retryLoop (Suc fuel) durString toLower choices ctx cfg operation pats timerAt interval k now w =
     (case selectCase (choices k) ctx timerAt (now + int (snd (fst (operation ctx now w)))) interval of
        CtxDone \<Rightarrow>
          Some \<lparr> returned = ctx_Err ctx (selectAt ctx timerAt (now + int (snd (fst (operation ctx now w)))) interval),
                 calls = k + 1, lastError = Some e, leftBy = Cancelled,
                 finished = selectAt ctx timerAt (now + int (snd (fst (operation ctx now w)))) interval,
                 world = snd (operation ctx now w) \<rparr>
      | TimerFired \<Rightarrow>
          Some \<lparr> returned = Some (ErrTimedOut (MaxDuration cfg) e),
                 calls = k + 1, lastError = Some e, leftBy = TimedOut,
                 finished = selectAt ctx timerAt (now + int (snd (fst (operation ctx now w)))) interval,
                 world = snd (operation ctx now w) \<rparr>
      | IntervalElapsed \<Rightarrow>
          retryLoop fuel durString toLower choices ctx cfg operation pats timerAt
            (min (wrap64 (interval + IntervalIncrement cfg)) (MaxInterval cfg))
            (k + 1) (selectAt ctx timerAt (now + int (snd (fst (operation ctx now w)))) interval)
            (snd (operation ctx now w)))"
  unfolding retryLoop.simps Let_def using assms by simp

lemma retryLoop_exits:
  assumes "retryLoop fuel durString toLower choices ctx cfg operation pats timerAt interval k now w = Some r"
  shows "k < calls r \<and>
         (leftBy r = Succeeded \<longrightarrow> returned r = None \<and> lastError r = None) \<and>
         (leftBy r = NonRetriable \<longrightarrow>
            returned r = lastError r \<and> isNonRetriable durString toLower (lastError r) pats) \<and>
         (leftBy r = Cancelled \<longrightarrow>
            returned r = Some (cause ctx) \<and> ctx_done ctx (finished r) \<and> lastError r \<noteq> None) \<and>
         (leftBy r = TimedOut \<longrightarrow>
            (\<exists>e. lastError r = Some e \<and> returned r = Some (ErrTimedOut (MaxDuration cfg) e)) \<and>
            timerAt \<le> finished r)"
  using assms
proof (induction fuel arbitrary: interval k now w)
  case 0
  then show ?case by (simp add: retryLoop.simps)
next
  case (Suc fuel)
  let ?err = "fst (fst (operation ctx now w))"
  let ?ret = "now + int (snd (fst (operation ctx now w)))"
  let ?w1 = "snd (operation ctx now w)"
  show ?case
  proof (cases ?err)
    case None
    from Suc.prems
      retryLoop_success [where operation = operation and ctx = ctx and now = now and w = w
        and fuel = fuel and durString = durString and toLower = toLower and choices = choices and cfg = cfg
        and pats = pats and timerAt = timerAt and interval = interval and k = k, OF None]
    show ?thesis by auto
  next
    case (Some e)
    show ?thesis
    proof (cases "isNonRetriable durString toLower (Some e) pats")
      case True
      from Suc.prems
        retryLoop_non_retriable [where operation = operation and ctx = ctx and now = now
          and w = w and fuel = fuel and durString = durString and toLower = toLower and choices = choices and cfg = cfg
          and pats = pats and timerAt = timerAt and interval = interval and k = k, OF Some True]
      show ?thesis using True by auto
    next
      case False
      note step = retryLoop_retriable [where operation = operation and ctx = ctx and now = now
          and w = w and fuel = fuel and durString = durString and toLower = toLower and choices = choices and cfg = cfg
          and pats = pats and timerAt = timerAt and interval = interval and k = k, OF Some False]
      show ?thesis
      proof (cases "selectCase (choices k) ctx timerAt ?ret interval")
        case CtxDone
        from selectCase_CtxDone [OF this]
        have d: "ctx_done ctx (selectAt ctx timerAt ?ret interval)" .
        with step CtxDone Suc.prems show ?thesis
          by (auto simp: ctx_Err_def)
      next
        case TimerFired
        from selectCase_TimerFired [OF this]
        have "timerAt \<le> selectAt ctx timerAt ?ret interval" .
        with step TimerFired Suc.prems show ?thesis
          by auto
      next
        case IntervalElapsed
        with step Suc.prems
        have "retryLoop fuel durString toLower choices ctx cfg operation pats timerAt
                (min (wrap64 (interval + IntervalIncrement cfg)) (MaxInterval cfg))
                (k + 1) (selectAt ctx timerAt ?ret interval) ?w1 = Some r"
          by simp
        from Suc.IH [OF this] show ?thesis by auto
      qed
    qed
  qed
qed

lemmas retry_eval = RetryWithBackoff_def retryLoop.simps Let_def selectCase_def selectReady_def
  selectAt_def ctx_done_def ctx_Err_def isNonRetriable_def failsAfter_def succeedsAfter_def
  drawZero_def Background_def wrap64_def

text \<open>
  Claim C7, as the code has it.  When a run of \<open>RetryWithBackoff\<close> ends because the timer
  set to \<open>MaxDuration\<close> has fired, the error returned wraps the error of the last call of the
  operation together with the configured \<open>MaxDuration\<close> (\<open>errors.Unwrap\<close> gives the
  operation's error back), and the return is not earlier than \<open>MaxDuration\<close> after the call.
  When it ends because the context is done, the error returned is the context's error itself.
\<close>

theorem retry_gives_up:
  "(RetryWithBackoff fuel1 durString toLower choices1 ctx1 cfg1 operation1 pats1 now1 w1 = Some r1 \<and>
      leftBy r1 = TimedOut \<longrightarrow>
        (\<exists>e. lastError r1 = Some e \<and> returned r1 = Some (ErrTimedOut (MaxDuration cfg1) e) \<and>
             unwrap (ErrTimedOut (MaxDuration cfg1) e) = Some e \<and>
             error_text durString (ErrTimedOut (MaxDuration cfg1) e) =
               ''operation timed out after '' @ durString (MaxDuration cfg1) @ '': '' @
               error_text durString e) \<and>
        now1 + MaxDuration cfg1 \<le> finished r1) \<and>
   (RetryWithBackoff fuel2 durString toLower choices2 ctx2 cfg2 operation2 pats2 now2 w2 = Some r2 \<and>
      leftBy r2 = Cancelled \<longrightarrow>
        returned r2 = Some (cause ctx2) \<and> ctx_done ctx2 (finished r2))"
proof -
  have A: "(\<exists>e. lastError r1 = Some e \<and> returned r1 = Some (ErrTimedOut (MaxDuration cfg1) e) \<and>
             unwrap (ErrTimedOut (MaxDuration cfg1) e) = Some e \<and>
             error_text durString (ErrTimedOut (MaxDuration cfg1) e) =
               ''operation timed out after '' @ durString (MaxDuration cfg1) @ '': '' @
               error_text durString e) \<and>
        now1 + MaxDuration cfg1 \<le> finished r1"
    if "RetryWithBackoff fuel1 durString toLower choices1 ctx1 cfg1 operation1 pats1 now1 w1 = Some r1"
      "leftBy r1 = TimedOut"
    using retryLoop_exits [OF that(1) [unfolded RetryWithBackoff_def]] that(2) by auto
  have B: "returned r2 = Some (cause ctx2) \<and> ctx_done ctx2 (finished r2)"
    if "RetryWithBackoff fuel2 durString toLower choices2 ctx2 cfg2 operation2 pats2 now2 w2 = Some r2"
      "leftBy r2 = Cancelled"
    using retryLoop_exits [OF that(1) [unfolded RetryWithBackoff_def]] that(2) by auto
  from A B show ?thesis by blast
qed

lemma run_timed_out:
  "RetryWithBackoff 3 durationText lowerASCII drawZero Background
      \<lparr> MaxDuration = 10, InitialInterval = 4, MaxInterval = 8, IntervalIncrement = 2 \<rparr>
      (failsAfter 1 (ErrorString ''boom'')) [] 0 0
    = Some \<lparr> returned = Some (ErrTimedOut 10 (ErrorString ''boom'')), calls = 2,
             lastError = Some (ErrorString ''boom''), leftBy = TimedOut, finished = 10,
             world = 2 \<rparr>"
  by (simp add: retry_eval numeral_3_eq_3)

lemma run_cancelled:
  "RetryWithBackoff 3 durationText lowerASCII drawZero \<lparr> expires = Some 7, cause = Canceled \<rparr>
      \<lparr> MaxDuration = 100, InitialInterval = 4, MaxInterval = 8, IntervalIncrement = 2 \<rparr>
      (failsAfter 1 (ErrorString ''boom'')) [] 0 0
    = Some \<lparr> returned = Some Canceled, calls = 2,
             lastError = Some (ErrorString ''boom''), leftBy = Cancelled, finished = 7,
             world = 2 \<rparr>"
  by (simp add: retry_eval numeral_3_eq_3)

text \<open>
  The duration in the error is the configured one, not the time that has passed: with
  \<open>MaxDuration\<close> 10 and an operation that fails after 100 nanoseconds, the run ends at
  instant 100 with an error that says 10.
\<close>

theorem reported_duration_counterexample:
  "RetryWithBackoff 1 durationText lowerASCII drawZero Background
      \<lparr> MaxDuration = 10, InitialInterval = 4, MaxInterval = 8, IntervalIncrement = 2 \<rparr>
      (failsAfter 100 (ErrorString ''boom'')) [] 0 0
    = Some \<lparr> returned = Some (ErrTimedOut 10 (ErrorString ''boom'')), calls = 1,
             lastError = Some (ErrorString ''boom''), leftBy = TimedOut, finished = 100,
             world = 1 \<rparr> \<and>
   returned \<lparr> returned = Some (ErrTimedOut 10 (ErrorString ''boom'')), calls = 1,
             lastError = Some (ErrorString ''boom''), leftBy = TimedOut, finished = 100,
             world = 1::nat \<rparr>
     \<noteq> Some (ErrTimedOut (100 - 0) (ErrorString ''boom''))"
  by (simp add: retry_eval)

theorem retry_gives_up_witness:
  "RetryWithBackoff 3 durationText lowerASCII drawZero Background
      \<lparr> MaxDuration = 10, InitialInterval = 4, MaxInterval = 8, IntervalIncrement = 2 \<rparr>
      (failsAfter 1 (ErrorString ''boom'')) [] 0 0
    = Some \<lparr> returned = Some (ErrTimedOut 10 (ErrorString ''boom'')), calls = 2,
             lastError = Some (ErrorString ''boom''), leftBy = TimedOut, finished = 10,
             world = 2 \<rparr> \<and>
   (0::int) + 10 \<le> 10 \<and>
   RetryWithBackoff 3 durationText lowerASCII drawZero \<lparr> expires = Some 7, cause = Canceled \<rparr>
      \<lparr> MaxDuration = 100, InitialInterval = 4, MaxInterval = 8, IntervalIncrement = 2 \<rparr>
      (failsAfter 1 (ErrorString ''boom'')) [] 0 0
    = Some \<lparr> returned = Some Canceled, calls = 2,
             lastError = Some (ErrorString ''boom''), leftBy = Cancelled, finished = 7,
             world = 2 \<rparr> \<and>
   ctx_done \<lparr> expires = Some 7, cause = Canceled \<rparr> 7"
proof -
  let ?r1 = "\<lparr> returned = Some (ErrTimedOut 10 (ErrorString ''boom'')), calls = 2,
             lastError = Some (ErrorString ''boom''), leftBy = TimedOut, finished = 10,
             world = 2::nat \<rparr>"
  let ?r2 = "\<lparr> returned = Some Canceled, calls = 2,
             lastError = Some (ErrorString ''boom''), leftBy = Cancelled, finished = 7,
             world = 2::nat \<rparr>"
  note main = retry_gives_up [where ?r1.0 = ?r1 and ?r2.0 = ?r2 and ?fuel1.0 = 3 and ?fuel2.0 = 3
      and durString = durationText and toLower = lowerASCII and ?choices1.0 = drawZero and ?choices2.0 = drawZero
      and ?ctx1.0 = Background and ?ctx2.0 = "\<lparr> expires = Some 7, cause = Canceled \<rparr>"
      and ?cfg1.0 = "\<lparr> MaxDuration = 10, InitialInterval = 4, MaxInterval = 8, IntervalIncrement = 2 \<rparr>"
      and ?cfg2.0 = "\<lparr> MaxDuration = 100, InitialInterval = 4, MaxInterval = 8, IntervalIncrement = 2 \<rparr>"
      and ?operation1.0 = "failsAfter 1 (ErrorString ''boom'')"
      and ?operation2.0 = "failsAfter 1 (ErrorString ''boom'')"
      and ?pats1.0 = "[]" and ?pats2.0 = "[]" and ?now1.0 = 0 and ?now2.0 = 0
      and ?w1.0 = 0 and ?w2.0 = 0]
  have a: "(0::int) + 10 \<le> 10" using main run_timed_out by simp
  have b: "ctx_done \<lparr> expires = Some 7, cause = Canceled \<rparr> 7" using main run_cancelled by simp
  from a b run_timed_out run_cancelled show ?thesis by blast
qed

text \<open>
  Claim C8.  \<open>isNonRetriable\<close> holds of an error exactly when the text of the error,
  lowered by \<open>strings.ToLower\<close> (the parameter \<open>toLower\<close>), contains the text of one of
  the patterns lowered in the same way.  When the first call of the
  operation fails with such an error, \<open>RetryWithBackoff\<close> returns that very error after that
  one call.  With an empty list of patterns no error is non-retriable, and no run ends through
  the non-retriable exit.
\<close>

theorem non_retriable_pattern_stops_retry:
  "(isNonRetriable durString toLower (Some e) pats \<longleftrightarrow>
      (\<exists>p \<in> set pats. \<exists>ps ss. toLower (error_text durString e) = ps @ toLower p @ ss)) \<and>
   (fst (fst (operation ctx now w)) = Some e \<and>
    (\<exists>p \<in> set pats. \<exists>ps ss. toLower (error_text durString e) = ps @ toLower p @ ss) \<longrightarrow>
      RetryWithBackoff (Suc fuel) durString toLower choices ctx cfg operation pats now w =
        Some \<lparr> returned = Some e, calls = 1, lastError = Some e, leftBy = NonRetriable,
               finished = now + int (snd (fst (operation ctx now w))),
               world = snd (operation ctx now w) \<rparr>) \<and>
   \<not> isNonRetriable durString toLower err [] \<and>
   (RetryWithBackoff fuel' durString toLower choices' ctx' cfg' operation' [] now' w' = Some r \<longrightarrow>
      leftBy r \<noteq> NonRetriable)"
proof -
  have A: "isNonRetriable durString toLower (Some e) pats \<longleftrightarrow>
      (\<exists>p \<in> set pats. \<exists>ps ss. toLower (error_text durString e) = ps @ toLower p @ ss)"
    by (rule isNonRetriable_iff)
  have B: "RetryWithBackoff (Suc fuel) durString toLower choices ctx cfg operation pats now w =
        Some \<lparr> returned = Some e, calls = 1, lastError = Some e, leftBy = NonRetriable,
               finished = now + int (snd (fst (operation ctx now w))),
               world = snd (operation ctx now w) \<rparr>"
    if f: "fst (fst (operation ctx now w)) = Some e"
      and m: "\<exists>p \<in> set pats. \<exists>ps ss. toLower (error_text durString e) = ps @ toLower p @ ss"
  proof -
    from m A have nr: "isNonRetriable durString toLower (Some e) pats" by blast
    from retryLoop_non_retriable [where operation = operation and ctx = ctx and now = now
        and w = w and fuel = fuel and durString = durString and toLower = toLower and choices = choices and cfg = cfg
        and pats = pats and timerAt = "now + MaxDuration cfg" and interval = "InitialInterval cfg"
        and k = 0, OF f nr]
    show ?thesis by (simp add: RetryWithBackoff_def)
  qed
  have C: "\<not> isNonRetriable durString toLower err []" by (rule isNonRetriable_no_patterns)
  have D: "leftBy r \<noteq> NonRetriable"
    if "RetryWithBackoff fuel' durString toLower choices' ctx' cfg' operation' [] now' w' = Some r"
    using retryLoop_exits [OF that [unfolded RetryWithBackoff_def]] isNonRetriable_no_patterns
    by blast
  from A B C D show ?thesis by blast
qed

lemma pattern_example:
  "isNonRetriable durationText lowerASCII (Some (ErrorString ''Item Not Found: 7'')) [''timeout'', ''NOT FOUND'']"
  by code_simp

theorem non_retriable_pattern_stops_retry_witness:
  "(\<exists>p \<in> set [''timeout'', ''NOT FOUND'']. \<exists>ps ss.
      lowerASCII (error_text durationText (ErrorString ''Item Not Found: 7'')) = ps @ lowerASCII p @ ss) \<and>
   RetryWithBackoff (Suc 4) durationText lowerASCII drawZero Background
      \<lparr> MaxDuration = 100, InitialInterval = 4, MaxInterval = 8, IntervalIncrement = 2 \<rparr>
      (failsAfter 3 (ErrorString ''Item Not Found: 7'')) [''timeout'', ''NOT FOUND''] 0 0
    = Some \<lparr> returned = Some (ErrorString ''Item Not Found: 7''), calls = 1,
             lastError = Some (ErrorString ''Item Not Found: 7''), leftBy = NonRetriable,
             finished = 3, world = 1 \<rparr> \<and>
   RetryWithBackoff 3 durationText lowerASCII drawZero Background
      \<lparr> MaxDuration = 10, InitialInterval = 4, MaxInterval = 8, IntervalIncrement = 2 \<rparr>
      (failsAfter 1 (ErrorString ''boom'')) [] 0 0
    = Some \<lparr> returned = Some (ErrTimedOut 10 (ErrorString ''boom'')), calls = 2,
             lastError = Some (ErrorString ''boom''), leftBy = TimedOut, finished = 10,
             world = 2 \<rparr> \<and>
   TimedOut \<noteq> NonRetriable"
proof -
  let ?e = "ErrorString ''Item Not Found: 7''"
  let ?pats = "[''timeout'', ''NOT FOUND'']"
  let ?cfg = "\<lparr> MaxDuration = 100, InitialInterval = 4, MaxInterval = 8, IntervalIncrement = 2 \<rparr>"
  let ?r = "\<lparr> returned = Some (ErrTimedOut 10 (ErrorString ''boom'')), calls = 2,
             lastError = Some (ErrorString ''boom''), leftBy = TimedOut, finished = 10,
             world = 2::nat \<rparr>"
  note main = non_retriable_pattern_stops_retry [where durString = durationText and toLower = lowerASCII and e = ?e
      and pats = ?pats and operation = "failsAfter 3 ?e" and ctx = Background and now = 0
      and w = 0 and fuel = 4 and choices = drawZero and cfg = ?cfg and r = ?r and fuel' = 3
      and choices' = drawZero and ctx' = Background
      and cfg' = "\<lparr> MaxDuration = 10, InitialInterval = 4, MaxInterval = 8, IntervalIncrement = 2 \<rparr>"
      and operation' = "failsAfter 1 (ErrorString ''boom'')" and now' = 0 and w' = 0]
  have h1: "\<exists>p \<in> set ?pats. \<exists>ps ss. lowerASCII (error_text durationText ?e) = ps @ lowerASCII p @ ss"
    using main pattern_example by blast
  have h2: "fst (fst (failsAfter 3 ?e Background 0 (0::nat))) = Some ?e"
    by (simp add: failsAfter_def)
  have a: "RetryWithBackoff (Suc 4) durationText lowerASCII drawZero Background ?cfg (failsAfter 3 ?e) ?pats 0 0
    = Some \<lparr> returned = Some ?e, calls = 1, lastError = Some ?e, leftBy = NonRetriable,
             finished = 3, world = 1 \<rparr>"
    using main [THEN conjunct2, THEN conjunct1, rule_format, OF conjI [OF h2 h1]]
    by (simp add: failsAfter_def)
  have b: "TimedOut \<noteq> NonRetriable"
    using main [THEN conjunct2, THEN conjunct2, THEN conjunct2, rule_format, OF run_timed_out]
    by simp
  from h1 a run_timed_out b show ?thesis by blast
qed



section \<open>Asynchronous request processor: properties\<close>

lemma process_not_nil:
  "retryConfig w = Some cfg \<Longrightarrow> process w req now wd = Inr (processWith cfg w req now wd)"
  by (simp add: process_def)

lemma processRequest_nil:
  "retryConfig w = None \<Longrightarrow>
   processRequest fuel durString toLower sc w req now wd = Some (Inl NilPointerDereference)"
  by (simp add: processRequest_def process_def Let_def)


lemma sameSetup_refl [simp]: "sameSetup w w"
  by (simp add: sameSetup_def)


lemma sameSetup_requestChan [simp]: "sameSetup (w \<lparr> requestChan := q \<rparr>) w1 = sameSetup w w1"
  by (simp add: sameSetup_def)








lemmas async_eval = NewAsyncRequstProcessor_def Submit_def process_def processWith_def
  processAttempt_def sendResponse_def processRequest_def Stop_def RetryWithBackoff_def
  retryLoop.simps Let_def ctx_done_def ctx_Err_def WithTimeout_def noDraw_def always_def
  echoProcessor_def time_since_def minDuration_def maxDuration_def isNonRetriable_def
  reqA_def reqB_def someConfig_def neverDrop_def alwaysDrop_def

text \<open>
  Claim C1, on the code.  With a nil \<open>retryConfig\<close>, \<open>processRequest\<close> calls \<open>process\<close>,
  which reads \<open>w.retryConfig.MaxDuration\<close> and panics with a nil pointer dereference before
  the processing function is called: a processor built with no retry configuration crashes on
  the first request its worker receives.
\<close>

theorem nil_retry_config_panics:
  "processRequest fuel durString toLower sc (w \<lparr> retryConfig := None \<rparr>) req now wd
     = Some (Inl NilPointerDereference) \<and>
   runEvents 1 durationText lowerASCII neverDrop [SubmitEv 1 reqA False, TakeEv 2]
     (NewAsyncRequstProcessor 1 echoProcessor None [] None) 0 0
     = Some (Inl NilPointerDereference)"
  by (simp add: async_eval)

lemma run_one_pending:
  "runEvents 1 durationText lowerASCII alwaysDrop [SubmitEv 1 reqA False]
      (NewAsyncRequstProcessor 1 echoProcessor (Some someConfig) [] (Some 5)) 0 0
    = Some (Inr ([True],
         \<lparr> requestChan = [reqA], responseChan = [], bufferSize = 1, processor = echoProcessor,
           workerCtx = \<lparr> expires = Some 5, cause = Canceled \<rparr>, retryConfig = Some someConfig,
           zeroR = [], handled = [], closed = False \<rparr>, 0, 0))"
  by (simp add: async_eval)



end
